theory Spec2Isabelle
  imports Complex_Main
begin

unbundle bit_operations_syntax

section \<open>Connectivity and location commands of the Android driver (lib/commands/network.js)\<close>

text \<open>
  The commands of \<^verbatim>\<open>network.js\<close> are thin orchestrations over a device bridge
  (\<^verbatim>\<open>this.adb\<close>) and an optional bootstrap process (\<^verbatim>\<open>this.bootstrap\<close>). Both
  collaborators live outside the repository, so the bridge is a parameter of every
  command: a record of operations over an arbitrary device state \<open>'d\<close>, each of which
  may fail. Every call that reaches the bridge or the bootstrap is appended to a call
  log kept in the driver state, so that "which calls were issued" is a property of
  the final state. Calls that the source starts together and awaits jointly
  (\<^verbatim>\<open>B.all\<close>) are issued in the order in which the source starts them.
\<close>

subsection \<open>Errors, bridge calls and the driver state\<close>

datatype error =
    InvalidArgumentError string
  | TypeError string
  | BridgeError string

text \<open>\<^verbatim>\<open>e.message\<close>\<close>

fun message :: "error \<Rightarrow> string" where
  "message (InvalidArgumentError m) = m"
| "message (TypeError m) = m"
| "message (BridgeError m) = m"

text \<open>
  A location as the bridge takes and delivers it: three raw values, here the strings
  that the bridge extracts from the device's output.
\<close>

record raw_location =
  raw_latitude :: string
  raw_longitude :: string
  raw_altitude :: string

datatype event =
    IsAirplaneModeOn
  | IsWifiOn
  | IsDataOn
  | SetAirplaneMode bool
  | BroadcastAirplaneMode bool
  | SetWifiState bool bool
  | SetDataState bool bool
  | GetApiLevel
  | Restart
  | BootstrapStart string bool bool
  | SetGeoLocation raw_location bool
  | GetGeoLocation

datatype log_level = Info | Warn

record bootstrap_handle =
  ignoreUnexpectedShutdown :: bool

record driver_opts =
  appPackage :: string
  disableAndroidWatchers :: bool
  acceptSslCerts :: bool

text \<open>
  The driver object \<^verbatim>\<open>this\<close>: the device behind the bridge, the calls issued so far,
  the lines logged so far, the optional bootstrap handle, the answer of
  \<^verbatim>\<open>this.isEmulator()\<close> and \<^verbatim>\<open>this.opts\<close>.
\<close>

record 'd driver =
  device :: 'd
  calls :: "event list"
  logged :: "(log_level \<times> string) list"
  bootstrap :: "bootstrap_handle option"
  emulator :: bool
  this_opts :: driver_opts

text \<open>
  The bridge \<^verbatim>\<open>this.adb\<close> (and \<^verbatim>\<open>this.bootstrap.start\<close>): each operation acts on the
  device state and returns a value or raises.
\<close>

record 'd adb =
  adb_isAirplaneModeOn :: "'d \<Rightarrow> (error + bool) \<times> 'd"
  adb_isWifiOn :: "'d \<Rightarrow> (error + bool) \<times> 'd"
  adb_isDataOn :: "'d \<Rightarrow> (error + bool) \<times> 'd"
  adb_setAirplaneMode :: "bool \<Rightarrow> 'd \<Rightarrow> (error + unit) \<times> 'd"
  adb_broadcastAirplaneMode :: "bool \<Rightarrow> 'd \<Rightarrow> (error + unit) \<times> 'd"
  adb_setWifiState :: "bool \<Rightarrow> bool \<Rightarrow> 'd \<Rightarrow> (error + unit) \<times> 'd"
  adb_setDataState :: "bool \<Rightarrow> bool \<Rightarrow> 'd \<Rightarrow> (error + unit) \<times> 'd"
  adb_getApiLevel :: "'d \<Rightarrow> (error + int) \<times> 'd"
  adb_restart :: "'d \<Rightarrow> (error + unit) \<times> 'd"
  adb_setGeoLocation :: "raw_location \<Rightarrow> bool \<Rightarrow> 'd \<Rightarrow> (error + unit) \<times> 'd"
  adb_getGeoLocation :: "'d \<Rightarrow> (error + raw_location) \<times> 'd"
  bootstrap_start :: "string \<Rightarrow> bool \<Rightarrow> bool \<Rightarrow> 'd \<Rightarrow> (error + unit) \<times> 'd"

subsection \<open>Commands as state transformers that may throw\<close>

type_synonym ('d, 'a) cmd = "'d driver \<Rightarrow> (error + 'a) \<times> 'd driver"

definition returnc :: "'a \<Rightarrow> ('d, 'a) cmd" where
  "returnc x w = (Inr x, w)"

definition throwc :: "error \<Rightarrow> ('d, 'a) cmd" where
  "throwc e w = (Inl e, w)"

text \<open>\<^verbatim>\<open>await m; f\<close>: an error of \<open>m\<close> skips the rest.\<close>

definition bindc :: "('d, 'a) cmd \<Rightarrow> ('a \<Rightarrow> ('d, 'b) cmd) \<Rightarrow> ('d, 'b) cmd" where
  "bindc m f w = (case m w of (Inl e, w') \<Rightarrow> (Inl e, w') | (Inr x, w') \<Rightarrow> f x w')"

text \<open>\<^verbatim>\<open>try { body } catch (e) { handler }\<close>\<close>

definition catchc :: "('d, 'a) cmd \<Rightarrow> (error \<Rightarrow> ('d, 'a) cmd) \<Rightarrow> ('d, 'a) cmd" where
  "catchc body handler w =
     (case body w of (Inl e, w') \<Rightarrow> handler e w' | (Inr x, w') \<Rightarrow> (Inr x, w'))"

text \<open>
  \<^verbatim>\<open>try { body } finally { cleanup }\<close>: the cleanup runs in either case; an error of
  the cleanup replaces the outcome of the body.
\<close>

definition finallyc :: "('d, 'a) cmd \<Rightarrow> ('d, unit) cmd \<Rightarrow> ('d, 'a) cmd" where
  "finallyc body cleanup w =
     (case body w of (r, w') \<Rightarrow>
        (case cleanup w' of (Inl e, w'') \<Rightarrow> (Inl e, w'') | (Inr _, w'') \<Rightarrow> (r, w'')))"

text \<open>
  A call that is started but not awaited on the spot (the promise is stored): the call
  is issued and its outcome, value or rejection, is kept for a later \<^verbatim>\<open>B.all\<close>.
\<close>

definition startc :: "('d, 'a) cmd \<Rightarrow> ('d, error + 'a) cmd" where
  "startc m w = (case m w of (r, w') \<Rightarrow> (Inr r, w'))"

text \<open>
  \<^verbatim>\<open>await B.all(promises)\<close> over settled outcomes: the values, or the first rejection
  (of several rejections the model takes the first in list order).
\<close>

fun all_settled :: "(error + 'a) list \<Rightarrow> error + 'a list" where
  "all_settled [] = Inr []"
| "all_settled (Inl e # ps) = Inl e"
| "all_settled (Inr v # ps) = (case all_settled ps of Inl e \<Rightarrow> Inl e | Inr vs \<Rightarrow> Inr (v # vs))"

definition B_all :: "(error + 'a) list \<Rightarrow> ('d, 'a list) cmd" where
  "B_all ps w = (all_settled ps, w)"

text \<open>A call of a bridge operation: it is recorded, then acts on the device.\<close>

definition adb_call :: "event \<Rightarrow> ('d \<Rightarrow> (error + 'a) \<times> 'd) \<Rightarrow> ('d, 'a) cmd" where
  "adb_call ev f w =
     (case f (device w) of (r, d') \<Rightarrow> (r, w\<lparr>device := d', calls := calls w @ [ev]\<rparr>))"

definition log_line :: "log_level \<Rightarrow> string \<Rightarrow> ('d, unit) cmd" where
  "log_line lvl msg w = (Inr (), w\<lparr>logged := logged w @ [(lvl, msg)]\<rparr>)"

definition isEmulator :: "('d, bool) cmd" where
  "isEmulator w = (Inr (emulator w), w)"

subsection \<open>Constants\<close>

definition AIRPLANE_MODE_MASK :: int where "AIRPLANE_MODE_MASK = 1"
definition WIFI_MASK :: int where "WIFI_MASK = 2"
definition DATA_MASK :: int where "DATA_MASK = 4"

definition WIFI_KEY_NAME :: string where "WIFI_KEY_NAME = ''wifi''"
definition DATA_KEY_NAME :: string where "DATA_KEY_NAME = ''data''"
definition AIRPLANE_MODE_KEY_NAME :: string where "AIRPLANE_MODE_KEY_NAME = ''airplaneMode''"

subsection \<open>Reading the network connection\<close>

text \<open>\<^verbatim>\<open>commands.isWifiOn\<close>: delegates to the bridge.\<close>

definition isWifiOn :: "'d adb \<Rightarrow> ('d, bool) cmd" where
  "isWifiOn adb = adb_call IsWifiOn (adb_isWifiOn adb)"

text \<open>
  \<^verbatim>\<open>commands.getNetworkConnection\<close>. The bitmask is a JavaScript number holding a small
  integer; \<open>|\<close> and \<open>&\<close> act on its low bits, which is what \<open>OR\<close> and \<open>AND\<close> on \<open>int\<close> do.
\<close>

definition getNetworkConnection :: "'d adb \<Rightarrow> ('d, int) cmd" where
  "getNetworkConnection adb =
     bindc (log_line Info ''Getting network connection'') (\<lambda>_.
     bindc (adb_call IsAirplaneModeOn (adb_isAirplaneModeOn adb)) (\<lambda>airplaneModeOn.
       let connection = (if airplaneModeOn then AIRPLANE_MODE_MASK else 0) in
       if \<not> airplaneModeOn then
         bindc (isWifiOn adb) (\<lambda>wifiOn.
           let connection = connection OR (if wifiOn then WIFI_MASK else 0) in
           bindc (adb_call IsDataOn (adb_isDataOn adb)) (\<lambda>dataOn.
             let connection = connection OR (if dataOn then DATA_MASK else 0) in
             returnc connection))
       else returnc connection))"

subsection \<open>The disconnect-safe wrapper\<close>

text \<open>
  \<^verbatim>\<open>this.bootstrap.ignoreUnexpectedShutdown = v\<close>: a write through the handle, which
  raises a TypeError when the handle is gone.
\<close>

definition set_ignoreUnexpectedShutdown :: "bool \<Rightarrow> ('d, unit) cmd" where
  "set_ignoreUnexpectedShutdown v w =
     (case bootstrap w of
        None \<Rightarrow> (Inl (TypeError ''Cannot set properties of undefined''), w)
      | Some b \<Rightarrow> (Inr (), w\<lparr>bootstrap := Some (b\<lparr>ignoreUnexpectedShutdown := v\<rparr>)\<rparr>))"

text \<open>
  \<^verbatim>\<open>this.bootstrap.start(this.opts.appPackage, this.opts.disableAndroidWatchers,
  this.opts.acceptSslCerts)\<close>
\<close>

definition bootstrapStart :: "'d adb \<Rightarrow> ('d, unit) cmd" where
  "bootstrapStart adb w =
     (case bootstrap w of
        None \<Rightarrow> (Inl (TypeError ''Cannot read properties of undefined''), w)
      | Some b \<Rightarrow>
          (let pkg = appPackage (this_opts w);
               dw = disableAndroidWatchers (this_opts w);
               ssl = acceptSslCerts (this_opts w)
           in adb_call (BootstrapStart pkg dw ssl) (bootstrap_start adb pkg dw ssl) w))"

text \<open>\<^verbatim>\<open>helpers.wrapBootstrapDisconnect\<close>\<close>

definition wrapBootstrapDisconnect :: "'d adb \<Rightarrow> ('d, unit) cmd \<Rightarrow> ('d, unit) cmd" where
  "wrapBootstrapDisconnect adb wrapped w =
     (if bootstrap w = None then wrapped w
      else
        bindc (set_ignoreUnexpectedShutdown True) (\<lambda>_.
          finallyc
            (bindc wrapped (\<lambda>_.
             bindc (adb_call Restart (adb_restart adb)) (\<lambda>_.
             bootstrapStart adb)))
            (set_ignoreUnexpectedShutdown False)) w)"

subsection \<open>Writing the network connection\<close>

text \<open>\<^verbatim>\<open>commands.setWifiState\<close>: delegates to the bridge.\<close>

definition setWifiState :: "'d adb \<Rightarrow> bool \<Rightarrow> ('d, unit) cmd" where
  "setWifiState adb wifi =
     bindc isEmulator (\<lambda>emu. adb_call (SetWifiState wifi emu) (adb_setWifiState adb wifi emu))"

definition enabled_or_disabled :: "bool \<Rightarrow> string" where
  "enabled_or_disabled b = (if b then ''enabled'' else ''disabled'')"

text \<open>\<^verbatim>\<open>commands.setNetworkConnection\<close>\<close>

definition setNetworkConnection :: "'d adb \<Rightarrow> int \<Rightarrow> ('d, int) cmd" where
  "setNetworkConnection adb type =
     bindc (log_line Info ''Setting network connection'') (\<lambda>_.
     let shouldEnableAirplaneMode = (type AND AIRPLANE_MODE_MASK \<noteq> 0);
         shouldEnableWifi = (type AND WIFI_MASK \<noteq> 0);
         shouldEnableDataConnection = (type AND DATA_MASK \<noteq> 0)
     in
     bindc (getNetworkConnection adb) (\<lambda>currentState.
     let isAirplaneModeEnabled = (currentState AND AIRPLANE_MODE_MASK \<noteq> 0);
         isWiFiEnabled = (currentState AND WIFI_MASK \<noteq> 0);
         isDataEnabled = (currentState AND DATA_MASK \<noteq> 0)
     in
     bindc
       (if shouldEnableAirplaneMode \<noteq> isAirplaneModeEnabled then
          bindc (wrapBootstrapDisconnect adb
                   (adb_call (SetAirplaneMode shouldEnableAirplaneMode)
                      (adb_setAirplaneMode adb shouldEnableAirplaneMode))) (\<lambda>_.
          wrapBootstrapDisconnect adb
            (bindc (adb_call GetApiLevel (adb_getApiLevel adb)) (\<lambda>api.
               if api < 30 then
                 adb_call (BroadcastAirplaneMode shouldEnableAirplaneMode)
                   (adb_broadcastAirplaneMode adb shouldEnableAirplaneMode)
               else returnc ())))
        else
          log_line Info (''Not changing airplane mode, since it is already ''
                           @ enabled_or_disabled shouldEnableAirplaneMode)) (\<lambda>_.
     if shouldEnableWifi = isWiFiEnabled \<and> shouldEnableDataConnection = isDataEnabled then
       bindc (log_line Info
                ''Not changing data connection/Wi-Fi states, since they are already set to expected values'') (\<lambda>_.
       bindc (adb_call IsAirplaneModeOn (adb_isAirplaneModeOn adb)) (\<lambda>airplaneModeOn.
         if airplaneModeOn then returnc (AIRPLANE_MODE_MASK OR currentState)
         else returnc (NOT AIRPLANE_MODE_MASK AND currentState)))
     else
       bindc (wrapBootstrapDisconnect adb
                (bindc
                   (if shouldEnableWifi \<noteq> isWiFiEnabled then setWifiState adb shouldEnableWifi
                    else log_line Info (''Not changing Wi-Fi state, since it is already ''
                                          @ enabled_or_disabled shouldEnableWifi)) (\<lambda>_.
                 if shouldEnableAirplaneMode then
                   log_line Info
                     ''Not changing data connection state, because airplane mode is enabled''
                 else if shouldEnableDataConnection = isDataEnabled then
                   log_line Info (''Not changing data connection state, since it is already ''
                                    @ enabled_or_disabled shouldEnableDataConnection)
                 else
                   bindc isEmulator (\<lambda>emu.
                     adb_call (SetDataState shouldEnableDataConnection emu)
                       (adb_setDataState adb shouldEnableDataConnection emu))))) (\<lambda>_.
       getNetworkConnection adb))))"

subsection \<open>Connectivity by service name\<close>

text \<open>
  The \<^verbatim>\<open>services\<close> option: absent (\<open>None\<close>), a single string, or an array of strings.
\<close>

datatype services_arg = OneService string | ServiceList "string list"

text \<open>
  A settled promise holding a service state: rejected, or resolved with a boolean or
  with \<^verbatim>\<open>undefined\<close> (\<open>None\<close>).
\<close>

type_synonym state_promise = "error + bool option"

text \<open>
  \<^verbatim>\<open>services.map((k) => [k, statePromises[k].value()])\<close>: a name that is not a key of
  \<^verbatim>\<open>statePromises\<close> yields no promise, and reading \<^verbatim>\<open>.value()\<close> from it raises a
  TypeError (this holds as well for names inherited from \<^verbatim>\<open>Object.prototype\<close>, whose
  values have no \<^verbatim>\<open>value\<close> method). After \<^verbatim>\<open>B.all\<close> has succeeded every promise is
  fulfilled; \<^verbatim>\<open>.value()\<close> of a rejected one would raise as well.
\<close>

fun statePairs :: "(string \<rightharpoonup> state_promise) \<Rightarrow> string list \<Rightarrow> error + (string \<times> bool option) list" where
  "statePairs sp [] = Inr []"
| "statePairs sp (k # ks) =
     (case sp k of
        None \<Rightarrow> Inl (TypeError ''Cannot read properties of undefined (reading value)'')
      | Some (Inl e) \<Rightarrow> Inl (TypeError ''cannot get fulfillment value of a non-fulfilled promise'')
      | Some (Inr v) \<Rightarrow>
          (case statePairs sp ks of Inl e \<Rightarrow> Inl e | Inr ps \<Rightarrow> Inr ((k, v) # ps)))"

text \<open>\<^verbatim>\<open>_.fromPairs\<close>: an object from key-value pairs, a later pair winning.\<close>

definition fromPairs :: "(string \<times> 'v) list \<Rightarrow> (string \<rightharpoonup> 'v)" where
  "fromPairs ps = fold (\<lambda>(k, v) m. m(k \<mapsto> v)) ps Map.empty"

text \<open>
  \<^verbatim>\<open>obj.k\<close> on an object whose values may be \<^verbatim>\<open>undefined\<close>: a missing key reads as
  \<^verbatim>\<open>undefined\<close> too.
\<close>

definition js_prop :: "(string \<rightharpoonup> 'v option) \<Rightarrow> string \<Rightarrow> 'v option" where
  "js_prop obj k = (case obj k of None \<Rightarrow> None | Some v \<Rightarrow> v)"

text \<open>
  The head of \<^verbatim>\<open>mobileGetConnectivity\<close>: \<^verbatim>\<open>services\<close> defaults to the three names, and
  a value that is not an array is wrapped into one.
\<close>

definition requested_services :: "services_arg option \<Rightarrow> string list" where
  "requested_services services_opt =
     (case services_opt of
        None \<Rightarrow> [WIFI_KEY_NAME, DATA_KEY_NAME, AIRPLANE_MODE_KEY_NAME]
      | Some (OneService s) \<Rightarrow> [s]
      | Some (ServiceList xs) \<Rightarrow> xs)"

text \<open>
  \<^verbatim>\<open>commands.mobileGetConnectivity\<close>. The three entries of \<^verbatim>\<open>statePromises\<close> are built in
  source order; each is \<^verbatim>\<open>B.resolve(services.includes(NAME) ? undefined : this.adb.isXOn())\<close>,
  so a bridge call is started exactly when the name is \<^emph>\<open>not\<close> among the services.
\<close>

definition mobileGetConnectivity ::
    "'d adb \<Rightarrow> services_arg option \<Rightarrow> ('d, string \<rightharpoonup> bool option) cmd" where
  "mobileGetConnectivity adb services_opt =
     (let services = requested_services services_opt in
      bindc (if WIFI_KEY_NAME \<in> set services then returnc (Inr None)
             else startc (bindc (adb_call IsWifiOn (adb_isWifiOn adb)) (\<lambda>b. returnc (Some b))))
        (\<lambda>wifi.
      bindc (if DATA_KEY_NAME \<in> set services then returnc (Inr None)
             else startc (bindc (adb_call IsDataOn (adb_isDataOn adb)) (\<lambda>b. returnc (Some b))))
        (\<lambda>data.
      bindc (if AIRPLANE_MODE_KEY_NAME \<in> set services then returnc (Inr None)
             else startc (bindc (adb_call IsAirplaneModeOn (adb_isAirplaneModeOn adb))
                            (\<lambda>b. returnc (Some b))))
        (\<lambda>airplaneMode.
      let statePromises = [(''wifi'', wifi), (''data'', data), (''airplaneMode'', airplaneMode)]
      in
      bindc (B_all (map snd statePromises)) (\<lambda>_.
      (case statePairs (map_of statePromises) services of
         Inl e \<Rightarrow> throwc e
       | Inr ps \<Rightarrow> returnc (fromPairs ps)))))))"

text \<open>
  \<^verbatim>\<open>SetConnectivityOptions\<close>: each option is \<^verbatim>\<open>boolean?\<close>; \<open>None\<close> is the unset
  (\<^verbatim>\<open>undefined\<close>) value.
\<close>

record set_connectivity_opts =
  opt_wifi :: "bool option"
  opt_data :: "bool option"
  opt_airplaneMode :: "bool option"

text \<open>
  An element of the \<^verbatim>\<open>setters\<close> array: the promise of a call already started, or an
  \<^verbatim>\<open>async () => {...}\<close> function value that was pushed without being called.
\<close>

datatype 'd setter = Promise "error + unit" | Closure "('d, unit) cmd"

text \<open>
  What \<^verbatim>\<open>B.all\<close> sees in an element: the outcome of a promise; a function value is a
  plain value, passed through without being called.
\<close>

fun settled :: "'d setter \<Rightarrow> error + unit" where
  "settled (Promise p) = p"
| "settled (Closure f) = Inr ()"

text \<open>
  The body of the function pushed for airplane mode. \<^verbatim>\<open>this.adb.getApiLevel()\<close> is not
  awaited there: the call is started, and the pending promise compared with \<open>30\<close> by
  \<open><\<close> is false, so the broadcast branch is not taken.
\<close>

definition airplaneModeSetter :: "'d adb \<Rightarrow> bool \<Rightarrow> ('d, unit) cmd" where
  "airplaneModeSetter adb airplaneMode =
     bindc (adb_call (SetAirplaneMode airplaneMode) (adb_setAirplaneMode adb airplaneMode)) (\<lambda>_.
     bindc (startc (adb_call GetApiLevel (adb_getApiLevel adb))) (\<lambda>pending.
       let below30 = False in
       if below30 then
         adb_call (BroadcastAirplaneMode airplaneMode) (adb_broadcastAirplaneMode adb airplaneMode)
       else returnc ()))"

text \<open>\<^verbatim>\<open>commands.mobileSetConnectivity\<close>\<close>

definition mobileSetConnectivity :: "'d adb \<Rightarrow> set_connectivity_opts \<Rightarrow> ('d, unit) cmd" where
  "mobileSetConnectivity adb opts =
     (let wifi = opt_wifi opts; data = opt_data opts; airplaneMode = opt_airplaneMode opts in
      if list_all (\<lambda>v. v = None) [wifi, data, airplaneMode] then
        throwc (InvalidArgumentError
          ''Either one of ['wifi', 'data', 'airplaneMode'] options must be provided'')
      else
        bindc (mobileGetConnectivity adb (Some (ServiceList (
                 (if wifi = None then [] else [WIFI_KEY_NAME]) @
                 (if data = None then [] else [DATA_KEY_NAME]) @
                 (if airplaneMode = None then [] else [AIRPLANE_MODE_KEY_NAME])))))
          (\<lambda>currentState.
        let setters = [] in
        bindc (case wifi of
                 None \<Rightarrow> returnc setters
               | Some v \<Rightarrow>
                   if js_prop currentState ''wifi'' \<noteq> Some v then
                     bindc isEmulator (\<lambda>emu.
                     bindc (startc (adb_call (SetWifiState v emu) (adb_setWifiState adb v emu)))
                       (\<lambda>p. returnc (setters @ [Promise p])))
                   else returnc setters)
          (\<lambda>setters.
        bindc (case data of
                 None \<Rightarrow> returnc setters
               | Some v \<Rightarrow>
                   if js_prop currentState ''data'' \<noteq> Some v then
                     bindc isEmulator (\<lambda>emu.
                     bindc (startc (adb_call (SetDataState v emu) (adb_setDataState adb v emu)))
                       (\<lambda>p. returnc (setters @ [Promise p])))
                   else returnc setters)
          (\<lambda>setters.
        let setters =
              (case airplaneMode of
                 None \<Rightarrow> setters
               | Some v \<Rightarrow>
                   if js_prop currentState ''airplaneMode'' \<noteq> Some v
                   then setters @ [Closure (airplaneModeSetter adb v)]
                   else setters)
        in
        if setters \<noteq> [] then bindc (B_all (map settled setters)) (\<lambda>_. returnc ())
        else returnc ()))))"

subsection \<open>Geolocation\<close>

text \<open>
  A JavaScript number, as far as \<^verbatim>\<open>||\<close> cares: not-a-number, a finite value (the two
  zeros are not told apart) or an infinity. The commands only test and pass numbers
  on, they do no arithmetic, so a finite value is kept as the real it denotes.
\<close>

datatype jsnum = NaN | Num real | PosInfinity | NegInfinity

text \<open>\<^verbatim>\<open>Number.MIN_VALUE\<close>, the smallest positive double, \<open>2\<^sup>-\<^sup>1\<^sup>0\<^sup>7\<^sup>4\<close>.\<close>

definition MIN_VALUE :: real where "MIN_VALUE = 1 / 2 ^ 1074"

definition GEO_EPSILON :: jsnum where "GEO_EPSILON = Num MIN_VALUE"

text \<open>\<^verbatim>\<open>a || b\<close> on numbers: \<open>NaN\<close> and zero are falsy.\<close>

definition truthy :: "jsnum \<Rightarrow> bool" where
  "truthy a = (a \<noteq> NaN \<and> a \<noteq> Num 0)"

definition js_or :: "jsnum \<Rightarrow> jsnum \<Rightarrow> jsnum" where
  "js_or a b = (if truthy a then a else b)"

record geo_location =
  latitude :: jsnum
  longitude :: jsnum
  altitude :: jsnum

text \<open>
  \<^verbatim>\<open>commands.getGeoLocation\<close>. The builtin \<^verbatim>\<open>parseFloat\<close> is a parameter: the command is
  verified for whatever number each raw value parses to.
\<close>

definition getGeoLocation :: "(string \<Rightarrow> jsnum) \<Rightarrow> 'd adb \<Rightarrow> ('d, geo_location) cmd" where
  "getGeoLocation parseFloat adb =
     bindc (adb_call GetGeoLocation (adb_getGeoLocation adb)) (\<lambda>loc.
       returnc \<lparr>latitude = js_or (parseFloat (raw_latitude loc)) GEO_EPSILON,
                longitude = js_or (parseFloat (raw_longitude loc)) GEO_EPSILON,
                altitude = js_or (parseFloat (raw_altitude loc)) GEO_EPSILON\<rparr>)"

text \<open>\<^verbatim>\<open>commands.setGeoLocation\<close>\<close>

definition setGeoLocation ::
    "(string \<Rightarrow> jsnum) \<Rightarrow> 'd adb \<Rightarrow> raw_location \<Rightarrow> ('d, geo_location) cmd" where
  "setGeoLocation parseFloat adb location =
     bindc isEmulator (\<lambda>emu.
     bindc (adb_call (SetGeoLocation location emu) (adb_setGeoLocation adb location emu)) (\<lambda>_.
     catchc (getGeoLocation parseFloat adb) (\<lambda>e.
       bindc (log_line Warn (''Could not get the current geolocation info: '' @ message e)) (\<lambda>_.
       bindc (log_line Warn ''Returning the default zero'ed values'') (\<lambda>_.
       returnc \<lparr>latitude = GEO_EPSILON, longitude = GEO_EPSILON, altitude = GEO_EPSILON\<rparr>)))))"

subsection \<open>A device and a parser to run the commands on\<close>

text \<open>
  Modelled from the spec: the device behind the bridge (\<^verbatim>\<open>appium-adb\<close>) is not part of
  the repository. Section 3 of the spec describes its connectivity state as three
  independent booleans, airplaneMode, wifi and data, always read live from the bridge;
  section 6 lists the operations. On this phone every read returns the flag, every
  write sets its flag and nothing else, and no call fails except reading the location
  while the device has none to report. Setting a location is accepted; the location
  the device reports (\<open>gps_fix\<close>) is its own and is not changed by it.
\<close>

record phone =
  airplane_on :: bool
  wifi_on :: bool
  data_on :: bool
  api_level :: int
  gps_fix :: "raw_location option"

definition phone_adb :: "phone adb" where
  "phone_adb =
     \<lparr>adb_isAirplaneModeOn = (\<lambda>d. (Inr (airplane_on d), d)),
      adb_isWifiOn = (\<lambda>d. (Inr (wifi_on d), d)),
      adb_isDataOn = (\<lambda>d. (Inr (data_on d), d)),
      adb_setAirplaneMode = (\<lambda>v d. (Inr (), d\<lparr>airplane_on := v\<rparr>)),
      adb_broadcastAirplaneMode = (\<lambda>v d. (Inr (), d)),
      adb_setWifiState = (\<lambda>v emu d. (Inr (), d\<lparr>wifi_on := v\<rparr>)),
      adb_setDataState = (\<lambda>v emu d. (Inr (), d\<lparr>data_on := v\<rparr>)),
      adb_getApiLevel = (\<lambda>d. (Inr (api_level d), d)),
      adb_restart = (\<lambda>d. (Inr (), d)),
      adb_setGeoLocation = (\<lambda>l emu d. (Inr (), d)),
      adb_getGeoLocation =
        (\<lambda>d. case gps_fix d of
                None \<Rightarrow> (Inl (BridgeError ''Cannot parse the actual location values''), d)
              | Some l \<Rightarrow> (Inr l, d)),
      bootstrap_start = (\<lambda>pkg dw ssl d. (Inr (), d))\<rparr>"

text \<open>A driver attached to a phone, with nothing called or logged yet.\<close>

definition fresh_driver :: "phone \<Rightarrow> bootstrap_handle option \<Rightarrow> phone driver" where
  "fresh_driver p b =
     \<lparr>device = p, calls = [], logged = [], bootstrap = b, emulator = False,
      this_opts = \<lparr>appPackage = ''io.appium.example'', disableAndroidWatchers = False,
                   acceptSslCerts = False\<rparr>\<rparr>"

definition phone_of :: "bool \<Rightarrow> bool \<Rightarrow> bool \<Rightarrow> int \<Rightarrow> phone" where
  "phone_of a w d api =
     \<lparr>airplane_on = a, wifi_on = w, data_on = d, api_level = api, gps_fix = None\<rparr>"

text \<open>
  The builtin \<^verbatim>\<open>parseFloat\<close> on ASCII strings, after the grammar \<^verbatim>\<open>StrDecimalLiteral\<close>
  of ECMAScript: leading white space is skipped, then the longest prefix that is a
  signed decimal literal (or \<^verbatim>\<open>Infinity\<close>) is read; without such a prefix the result is
  \<open>NaN\<close>. The value is the exact decimal value of the literal; the rounding to a double
  is not modelled.
\<close>

definition isStrWhiteSpace :: "char \<Rightarrow> bool" where
  "isStrWhiteSpace c = (c \<in> set [CHR 0x20, CHR 0x09, CHR 0x0A, CHR 0x0B, CHR 0x0C, CHR 0x0D])"

definition isDecimalDigit :: "char \<Rightarrow> bool" where
  "isDecimalDigit c = (c \<in> set ''0123456789'')"

definition digitValue :: "char \<Rightarrow> nat" where
  "digitValue c = (of_char c) - 48"

definition digitsValue :: "string \<Rightarrow> nat" where
  "digitsValue ds = foldl (\<lambda>acc c. 10 * acc + digitValue c) 0 ds"

text \<open>The exponent of an \<^verbatim>\<open>ExponentPart\<close> at the head of the string, \<open>0\<close> without one.\<close>

fun exponentPart :: "string \<Rightarrow> int" where
  "exponentPart [] = 0"
| "exponentPart (c # rest) =
     (if c = CHR ''e'' \<or> c = CHR ''E'' then
        (case rest of
           [] \<Rightarrow> 0
         | s # ds \<Rightarrow>
             if s = CHR ''-'' then
               (if takeWhile isDecimalDigit ds = [] then 0
                else - int (digitsValue (takeWhile isDecimalDigit ds)))
             else if s = CHR ''+'' then
               (if takeWhile isDecimalDigit ds = [] then 0
                else int (digitsValue (takeWhile isDecimalDigit ds)))
             else
               (if takeWhile isDecimalDigit rest = [] then 0
                else int (digitsValue (takeWhile isDecimalDigit rest))))
      else 0)"

definition scale10 :: "real \<Rightarrow> int \<Rightarrow> real" where
  "scale10 m e = (if 0 \<le> e then m * 10 ^ nat e else m / 10 ^ nat (- e))"

text \<open>An unsigned literal: the magnitude, or \<open>None\<close> when the string starts with none.\<close>

definition unsignedLiteral :: "string \<Rightarrow> jsnum option" where
  "unsignedLiteral s =
     (if take 8 s = ''Infinity'' then Some PosInfinity
      else
        let ip = takeWhile isDecimalDigit s;
            r1 = dropWhile isDecimalDigit s;
            fp = (case r1 of [] \<Rightarrow> [] | c # t \<Rightarrow>
                    if c = CHR ''.'' then takeWhile isDecimalDigit t else []);
            r2 = (case r1 of [] \<Rightarrow> [] | c # t \<Rightarrow>
                    if c = CHR ''.'' then dropWhile isDecimalDigit t else r1)
        in if ip = [] \<and> fp = [] then None
           else Some (Num (scale10 (real (digitsValue (ip @ fp)))
                             (exponentPart r2 - int (length fp)))))"

definition negate :: "jsnum \<Rightarrow> jsnum" where
  "negate x = (case x of NaN \<Rightarrow> NaN | Num r \<Rightarrow> Num (- r)
                | PosInfinity \<Rightarrow> NegInfinity | NegInfinity \<Rightarrow> PosInfinity)"

definition parseFloat_ascii :: "string \<Rightarrow> jsnum" where
  "parseFloat_ascii input =
     (let trimmed = dropWhile isStrWhiteSpace input in
      case trimmed of
        [] \<Rightarrow> NaN
      | c # rest \<Rightarrow>
          if c = CHR ''-'' then
            (case unsignedLiteral rest of None \<Rightarrow> NaN | Some x \<Rightarrow> negate x)
          else if c = CHR ''+'' then
            (case unsignedLiteral rest of None \<Rightarrow> NaN | Some x \<Rightarrow> x)
          else
            (case unsignedLiteral trimmed of None \<Rightarrow> NaN | Some x \<Rightarrow> x))"

subsection \<open>Observing a run\<close>

text \<open>The bridge calls that change the state of the device.\<close>

fun is_write :: "event \<Rightarrow> bool" where
  "is_write (SetAirplaneMode v) = True"
| "is_write (BroadcastAirplaneMode v) = True"
| "is_write (SetWifiState v emu) = True"
| "is_write (SetDataState v emu) = True"
| "is_write e = False"

text \<open>The calls a command issues when run from a state: what it appends to the call log.\<close>

definition issued :: "('d, 'a) cmd \<Rightarrow> 'd driver \<Rightarrow> event list" where
  "issued m w = drop (length (calls w)) (calls (snd (m w)))"

text \<open>
  A later state extends an earlier one: calls satisfying \<open>P\<close> were appended to the call
  log, lines were appended to the log, and nothing was removed from either.
\<close>

definition extends_with :: "(event \<Rightarrow> bool) \<Rightarrow> 'd driver \<Rightarrow> 'd driver \<Rightarrow> bool" where
  "extends_with P w w' =
     (\<exists>es ls. calls w' = calls w @ es \<and> list_all P es \<and> logged w' = logged w @ ls)"

text \<open>A command that, from any state, issues only calls satisfying \<open>P\<close>.\<close>

definition issues_only :: "(event \<Rightarrow> bool) \<Rightarrow> ('d, 'a) cmd \<Rightarrow> bool" where
  "issues_only P m = (\<forall>w. extends_with P w (snd (m w)))"

definition not_data_write :: "event \<Rightarrow> bool" where
  "not_data_write e = (case e of SetDataState v emu \<Rightarrow> False | _ \<Rightarrow> True)"

section \<open>Properties\<close>

lemmas cmd_defs = returnc_def throwc_def bindc_def catchc_def finallyc_def startc_def B_all_def
  adb_call_def log_line_def isEmulator_def

lemmas mask_defs = AIRPLANE_MODE_MASK_def WIFI_MASK_def DATA_MASK_def

lemmas key_defs = WIFI_KEY_NAME_def DATA_KEY_NAME_def AIRPLANE_MODE_KEY_NAME_def

lemmas phone_defs = phone_adb_def fresh_driver_def phone_of_def

lemmas network_defs = setNetworkConnection_def getNetworkConnection_def isWifiOn_def
  setWifiState_def wrapBootstrapDisconnect_def set_ignoreUnexpectedShutdown_def
  bootstrapStart_def enabled_or_disabled_def

lemmas parse_defs = parseFloat_ascii_def unsignedLiteral_def isStrWhiteSpace_def
  isDecimalDigit_def digitsValue_def digitValue_def scale10_def negate_def

subsection \<open>Connectivity by service name\<close>

text \<open>
  C1 (fails on the code): \<open>mobileGetConnectivity\<close> should query exactly the requested
  services and map each to its boolean state. Asked for \<open>wifi\<close> alone on a phone whose
  Wi-Fi is on, the code queries the two services that were \<^emph>\<open>not\<close> requested
  (\<open>isDataOn\<close>, \<open>isAirplaneModeOn\<close>), never \<open>isWifiOn\<close>, and returns the object
  \<^verbatim>\<open>{wifi: undefined}\<close>: the key is present and its value is no boolean.
\<close>

theorem mobileGetConnectivity_queries_complement:
  "calls (snd (mobileGetConnectivity phone_adb (Some (ServiceList [''wifi'']))
                 (fresh_driver (phone_of False True False 29) None)))
     = [IsDataOn, IsAirplaneModeOn]
   \<and> map_sum id (\<lambda>m. map m [''wifi'', ''data'', ''airplaneMode''])
        (fst (mobileGetConnectivity phone_adb (Some (ServiceList [''wifi'']))
                (fresh_driver (phone_of False True False 29) None)))
     = Inr [Some None, None, None]"
  by (simp add: mobileGetConnectivity_def requested_services_def Let_def cmd_defs key_defs
        phone_defs fromPairs_def)

text \<open>
  C2 (fails on the code): \<open>mobileSetConnectivity\<close> should write exactly the provided
  services whose state differs from the desired one. With \<open>wifi: true\<close> on a phone whose
  Wi-Fi is already on, the code reads the other two services and still issues
  \<open>setWifiState(true)\<close>; with \<open>airplaneMode: true\<close> on a phone whose airplane mode is
  off, it issues no write at all, because the function pushed for airplane mode is
  never called.
\<close>

theorem mobileSetConnectivity_writes_diverge:
  "calls (snd (mobileSetConnectivity phone_adb
                 \<lparr>opt_wifi = Some True, opt_data = None, opt_airplaneMode = None\<rparr>
                 (fresh_driver (phone_of False True False 29) None)))
     = [IsDataOn, IsAirplaneModeOn, SetWifiState True False]
   \<and> calls (snd (mobileSetConnectivity phone_adb
                 \<lparr>opt_wifi = None, opt_data = None, opt_airplaneMode = Some True\<rparr>
                 (fresh_driver (phone_of False True False 29) None)))
     = [IsWifiOn, IsDataOn]"
  by (simp add: mobileSetConnectivity_def mobileGetConnectivity_def requested_services_def
        Let_def cmd_defs key_defs phone_defs fromPairs_def js_prop_def)

lemma statePairs_unknown:
  "k \<in> set ks \<Longrightarrow> sp k = None \<Longrightarrow> \<exists>e. statePairs sp ks = Inl e"
  by (induction ks) (auto split: option.splits sum.splits)

lemma promise_started:
  "\<exists>p w'. (if c then returnc (Inr None) else startc m) w = (Inr p, w')"
  by (cases "m w") (simp add: returnc_def startc_def)

text \<open>
  C10: whenever the requested services contain a name other than \<open>wifi\<close>, \<open>data\<close> and
  \<open>airplaneMode\<close>, \<open>mobileGetConnectivity\<close> fails with an error, on every bridge and in
  every state: it returns no result, partial or otherwise.
\<close>

theorem mobileGetConnectivity_unknown_service_fails:
  assumes "k \<in> set (requested_services services)"
      and "k \<notin> {''wifi'', ''data'', ''airplaneMode''}"
  shows "\<exists>e. fst (mobileGetConnectivity adb services w) = Inl e"
proof -
  let ?names = "requested_services services"
  obtain p1 w1 where 1:
    "(if WIFI_KEY_NAME \<in> set ?names then returnc (Inr None)
      else startc (bindc (adb_call IsWifiOn (adb_isWifiOn adb)) (\<lambda>b. returnc (Some b)))) w
     = (Inr p1, w1)"
    using promise_started by blast
  obtain p2 w2 where 2:
    "(if DATA_KEY_NAME \<in> set ?names then returnc (Inr None)
      else startc (bindc (adb_call IsDataOn (adb_isDataOn adb)) (\<lambda>b. returnc (Some b)))) w1
     = (Inr p2, w2)"
    using promise_started by blast
  obtain p3 w3 where 3:
    "(if AIRPLANE_MODE_KEY_NAME \<in> set ?names then returnc (Inr None)
      else startc (bindc (adb_call IsAirplaneModeOn (adb_isAirplaneModeOn adb))
                     (\<lambda>b. returnc (Some b)))) w2
     = (Inr p3, w3)"
    using promise_started by blast
  let ?sp = "map_of [(''wifi'', p1), (''data'', p2), (''airplaneMode'', p3)]"
  have run: "mobileGetConnectivity adb services w =
               (case all_settled [p1, p2, p3] of
                  Inl e \<Rightarrow> (Inl e, w3)
                | Inr vs \<Rightarrow>
                    (case statePairs ?sp ?names of
                       Inl e \<Rightarrow> (Inl e, w3)
                     | Inr ps \<Rightarrow> (Inr (fromPairs ps), w3)))"
    unfolding mobileGetConnectivity_def Let_def
    by (simp only: bindc_def 1 2 3 prod.case sum.case B_all_def list.map snd_conv
          throwc_def returnc_def split: sum.splits) (simp split: sum.splits)
  have "?sp k = None" using assms(2) by simp
  then obtain e where "statePairs ?sp ?names = Inl e"
    using statePairs_unknown[OF assms(1)] by blast
  then show ?thesis
    unfolding run by (cases "all_settled [p1, p2, p3]") simp_all
qed

text \<open>C10 at a concrete input: the services \<open>wifi\<close> and \<open>bluetooth\<close> on the phone.\<close>

theorem mobileGetConnectivity_unknown_service_fails_witness:
  "\<exists>e. fst (mobileGetConnectivity phone_adb (Some (ServiceList [''wifi'', ''bluetooth'']))
              (fresh_driver (phone_of False True True 29) None)) = Inl e"
  using mobileGetConnectivity_unknown_service_fails
          [of "''bluetooth''" "Some (ServiceList [''wifi'', ''bluetooth''])" phone_adb
              "fresh_driver (phone_of False True True 29) None"]
  by (simp add: requested_services_def)

subsection \<open>Reading the network connection\<close>

text \<open>
  C6: whenever the bridge reports airplane mode on, \<open>getNetworkConnection\<close> issues the
  single call \<open>isAirplaneModeOn\<close>, so neither the Wi-Fi state nor the data state is
  queried, and it returns the bitmask 1, in which only the airplane bit is set.
\<close>

theorem getNetworkConnection_airplane_short_circuit:
  assumes "adb_isAirplaneModeOn adb (device w) = (Inr True, d')"
  shows "getNetworkConnection adb w =
           (Inr 1, w\<lparr>device := d', calls := calls w @ [IsAirplaneModeOn],
                     logged := logged w @ [(Info, ''Getting network connection'')]\<rparr>)"
  using assms by (simp add: getNetworkConnection_def cmd_defs mask_defs)

text \<open>C6 at a concrete input: a phone in airplane mode with Wi-Fi and data on.\<close>

theorem getNetworkConnection_airplane_short_circuit_witness:
  "fst (getNetworkConnection phone_adb (fresh_driver (phone_of True True True 29) None)) = Inr 1
   \<and> calls (snd (getNetworkConnection phone_adb (fresh_driver (phone_of True True True 29) None)))
       = [IsAirplaneModeOn]"
  using getNetworkConnection_airplane_short_circuit
          [of phone_adb "fresh_driver (phone_of True True True 29) None" "phone_of True True True 29"]
  by (simp add: phone_defs)

subsection \<open>The disconnect-safe wrapper\<close>

lemma bootstrap_adb_call [simp]: "bootstrap (snd (adb_call ev f w)) = bootstrap w"
  by (simp add: adb_call_def split: prod.splits)

lemma bootstrap_bootstrapStart [simp]: "bootstrap (snd (bootstrapStart adb w)) = bootstrap w"
  by (simp add: bootstrapStart_def Let_def split: option.splits)

lemma bootstrap_after_sequence:
  assumes keep: "\<And>s. bootstrap s \<noteq> None \<Longrightarrow> bootstrap (snd (wrapped s)) \<noteq> None"
      and "bootstrap s \<noteq> None"
  shows "bootstrap (snd (bindc wrapped (\<lambda>_. bindc (adb_call Restart (adb_restart adb))
                                           (\<lambda>_. bootstrapStart adb)) s)) \<noteq> None"
proof -
  obtain r1 s1 where 1: "wrapped s = (r1, s1)" by (cases "wrapped s")
  then have b1: "bootstrap s1 \<noteq> None" using keep[OF assms(2)] by simp
  obtain r2 s2 where 2: "adb_call Restart (adb_restart adb) s1 = (r2, s2)"
    by (cases "adb_call Restart (adb_restart adb) s1")
  then have b2: "bootstrap s2 \<noteq> None"
    using b1 bootstrap_adb_call[of Restart "adb_restart adb" s1] by simp
  have b3: "bootstrap (snd (bootstrapStart adb s2)) \<noteq> None" using b2 by simp
  show ?thesis
    using 1 2 b1 b2 b3 by (cases r1; cases r2) (simp_all add: bindc_def)
qed



subsection \<open>Which calls a command can issue\<close>

lemma extends_with_refl: "extends_with P w w"
  by (simp add: extends_with_def)

lemma extends_with_trans:
  "extends_with P w w1 \<Longrightarrow> extends_with P w1 w2 \<Longrightarrow> extends_with P w w2"
  by (auto simp: extends_with_def)

lemma extends_with_logged: "extends_with P a b \<Longrightarrow> \<exists>ls. logged b = logged a @ ls"
  by (auto simp: extends_with_def)

lemma issues_only_run: "issues_only P m \<Longrightarrow> m w = (r, w') \<Longrightarrow> extends_with P w w'"
  unfolding issues_only_def by (metis snd_conv)

lemma issues_only_returnc: "issues_only P (returnc x)"
  by (simp add: issues_only_def returnc_def extends_with_refl)

lemma issues_only_log_line: "issues_only P (log_line lvl msg)"
  by (simp add: issues_only_def log_line_def extends_with_def)

lemma issues_only_isEmulator: "issues_only P isEmulator"
  by (simp add: issues_only_def isEmulator_def extends_with_refl)

lemma issues_only_set_flag: "issues_only P (set_ignoreUnexpectedShutdown v)"
  by (simp add: issues_only_def set_ignoreUnexpectedShutdown_def extends_with_def
           split: option.splits)

lemma issues_only_adb_call: "P ev \<Longrightarrow> issues_only P (adb_call ev f)"
  by (simp add: issues_only_def adb_call_def extends_with_def split: prod.splits)

lemma issues_only_bindc:
  assumes "issues_only P m" and "\<And>x. issues_only P (f x)"
  shows "issues_only P (bindc m f)"
  unfolding issues_only_def
proof
  fix w
  obtain r w1 where 1: "m w = (r, w1)" by (cases "m w")
  have e1: "extends_with P w w1"
    using issues_only_run[OF assms(1) 1] .
  show "extends_with P w (snd (bindc m f w))"
  proof (cases r)
    case (Inl e)
    then show ?thesis using 1 e1 by (simp add: bindc_def)
  next
    case (Inr x)
    have "extends_with P w1 (snd (f x w1))"
      using assms(2)[of x] unfolding issues_only_def by blast
    then show ?thesis using 1 Inr extends_with_trans[OF e1] by (simp add: bindc_def)
  qed
qed

lemma issues_only_finallyc:
  assumes "issues_only P body" and "issues_only P cleanup"
  shows "issues_only P (finallyc body cleanup)"
  unfolding issues_only_def
proof
  fix w
  obtain r w1 where 1: "body w = (r, w1)" by (cases "body w")
  have e1: "extends_with P w w1"
    using issues_only_run[OF assms(1) 1] .
  obtain r2 w2 where 2: "cleanup w1 = (r2, w2)" by (cases "cleanup w1")
  have e2: "extends_with P w1 w2"
    using issues_only_run[OF assms(2) 2] .
  show "extends_with P w (snd (finallyc body cleanup w))"
    using 1 2 extends_with_trans[OF e1 e2] by (cases r2) (simp_all add: finallyc_def)
qed

lemma issues_only_if:
  "issues_only P m1 \<Longrightarrow> issues_only P m2 \<Longrightarrow> issues_only P (if c then m1 else m2)"
  by simp

lemma issues_only_bootstrapStart:
  "(\<And>pkg dw ssl. P (BootstrapStart pkg dw ssl)) \<Longrightarrow> issues_only P (bootstrapStart adb)"
  by (simp add: issues_only_def bootstrapStart_def Let_def adb_call_def extends_with_def
           split: option.splits prod.splits)

lemma issues_only_wrapBootstrapDisconnect:
  assumes "issues_only P wrapped" and "P Restart" and "\<And>pkg dw ssl. P (BootstrapStart pkg dw ssl)"
  shows "issues_only P (wrapBootstrapDisconnect adb wrapped)"
proof -
  have rest: "issues_only P
          (bindc (set_ignoreUnexpectedShutdown True) (\<lambda>_.
             finallyc
               (bindc wrapped (\<lambda>_.
                bindc (adb_call Restart (adb_restart adb)) (\<lambda>_. bootstrapStart adb)))
               (set_ignoreUnexpectedShutdown False)))"
    using assms
    by (intro issues_only_bindc issues_only_finallyc issues_only_set_flag
          issues_only_adb_call issues_only_bootstrapStart)
  show ?thesis
    unfolding issues_only_def
  proof
    fix w
    show "extends_with P w (snd (wrapBootstrapDisconnect adb wrapped w))"
      using assms(1) rest unfolding issues_only_def wrapBootstrapDisconnect_def
      by (cases "bootstrap w = None") simp_all
  qed
qed

lemma issues_only_getNetworkConnection:
  "P IsAirplaneModeOn \<Longrightarrow> P IsWifiOn \<Longrightarrow> P IsDataOn \<Longrightarrow> issues_only P (getNetworkConnection adb)"
  unfolding getNetworkConnection_def isWifiOn_def Let_def
  by (intro issues_only_bindc issues_only_if issues_only_log_line issues_only_adb_call
        issues_only_returnc)

lemma issues_only_setWifiState:
  "P (SetWifiState v True) \<Longrightarrow> P (SetWifiState v False) \<Longrightarrow> issues_only P (setWifiState adb v)"
  unfolding setWifiState_def
  by (intro issues_only_bindc issues_only_isEmulator issues_only_adb_call) (case_tac x; simp)

lemma setNetworkConnection_airplane_no_data_write:
  assumes "type AND AIRPLANE_MODE_MASK \<noteq> 0"
  shows "issues_only not_data_write (setNetworkConnection adb type)"
proof -
  have air: "(type AND AIRPLANE_MODE_MASK \<noteq> 0) = True"
    using assms by simp
  show ?thesis
    unfolding setNetworkConnection_def Let_def air if_True
    by (intro issues_only_bindc issues_only_if issues_only_log_line issues_only_adb_call
          issues_only_returnc issues_only_wrapBootstrapDisconnect issues_only_isEmulator
          issues_only_getNetworkConnection issues_only_setWifiState)
       (simp_all add: not_data_write_def)
qed

subsection \<open>What a successful run went through\<close>

lemma bindc_step: "m w = (Inr x, w1) \<Longrightarrow> bindc m f w = f x w1"
  by (simp add: bindc_def)

lemma bindc_Inr:
  "bindc m f w = (Inr r, w') \<Longrightarrow> \<exists>x w1. m w = (Inr x, w1) \<and> f x w1 = (Inr r, w')"
  by (simp add: bindc_def split: prod.splits sum.splits)

lemma finallyc_Inr:
  "finallyc body cleanup w = (Inr r, w') \<Longrightarrow>
     \<exists>w1. body w = (Inr r, w1) \<and> cleanup w1 = (Inr (), w')"
  by (auto simp: finallyc_def split: prod.splits sum.splits)

lemma wrapBootstrapDisconnect_Inr:
  assumes "wrapBootstrapDisconnect adb body s = (Inr u, s')"
  shows "\<exists>s1 s2. logged s1 = logged s \<and> body s1 = (Inr (), s2)
                  \<and> extends_with (\<lambda>_. True) s2 s'"
proof (cases "bootstrap s")
  case None
  then have "body s = (Inr (), s')"
    using assms(1) by (simp add: wrapBootstrapDisconnect_def)
  then show ?thesis using extends_with_refl by blast
next
  case (Some b)
  let ?tail = "bindc (adb_call Restart (adb_restart adb)) (\<lambda>_. bootstrapStart adb)"
  have run: "bindc (set_ignoreUnexpectedShutdown True) (\<lambda>_.
          finallyc (bindc body (\<lambda>_. ?tail)) (set_ignoreUnexpectedShutdown False)) s
        = (Inr u, s')"
    using assms(1) Some by (simp add: wrapBootstrapDisconnect_def)
  obtain x s1 where s1: "set_ignoreUnexpectedShutdown True s = (Inr x, s1)"
      and fin: "finallyc (bindc body (\<lambda>_. ?tail)) (set_ignoreUnexpectedShutdown False) s1
                = (Inr u, s')"
    using bindc_Inr[OF run] by blast
  have l1: "logged s1 = logged s"
    using s1 by (auto simp: set_ignoreUnexpectedShutdown_def split: option.splits)
  obtain sa where inner: "bindc body (\<lambda>_. ?tail) s1 = (Inr u, sa)"
      and cl: "set_ignoreUnexpectedShutdown False sa = (Inr (), s')"
    using finallyc_Inr[OF fin] by blast
  obtain y s2 where b: "body s1 = (Inr y, s2)" and t: "?tail s2 = (Inr u, sa)"
    using bindc_Inr[OF inner] by blast
  have "issues_only (\<lambda>_. True) ?tail"
    by (intro issues_only_bindc issues_only_adb_call issues_only_bootstrapStart) simp_all
  then have e1: "extends_with (\<lambda>_. True) s2 sa"
    using t by (rule issues_only_run)
  have "issues_only (\<lambda>_. True) (set_ignoreUnexpectedShutdown False)"
    by (rule issues_only_set_flag)
  then have e2: "extends_with (\<lambda>_. True) sa s'"
    using cl by (rule issues_only_run)
  show ?thesis
    using l1 b extends_with_trans[OF e1 e2] by auto
qed



subsection \<open>Writing the network connection of the phone\<close>

text \<open>
  C3 as stated fails: bit 0 of \<open>0b011\<close> is the airplane bit. On the phone in state
  \<open>0b100\<close> (data only), \<open>setNetworkConnection(0b011)\<close> switches airplane mode on and
  Wi-Fi on, issues no data write and returns \<open>0b001\<close>.
\<close>

theorem setNetworkConnection_example_counterexample:
  "fst (setNetworkConnection phone_adb 3 (fresh_driver (phone_of False False True 29) None)) = Inr 1
   \<and> filter is_write
        (calls (snd (setNetworkConnection phone_adb 3
                       (fresh_driver (phone_of False False True 29) None))))
       = [SetAirplaneMode True, BroadcastAirplaneMode True, SetWifiState True False]"
  by (simp add: network_defs cmd_defs mask_defs phone_defs Let_def)

text \<open>
  C3, amended: on the phone in state \<open>0b100\<close>, at any API level and with or without a
  bootstrap, \<open>setNetworkConnection(0b010)\<close> (Wi-Fi only) writes exactly Wi-Fi on and
  data off, leaves airplane mode untouched and returns \<open>0b010\<close>; and
  \<open>setNetworkConnection(0b011)\<close> writes airplane mode on (with the broadcast below
  API level 30) and Wi-Fi on, issues no data write and returns \<open>0b001\<close>.
\<close>

theorem setNetworkConnection_example_amended:
  "fst (setNetworkConnection phone_adb 2 (w\<lparr>device := phone_of False False True api\<rparr>)) = Inr 2
   \<and> filter is_write (issued (setNetworkConnection phone_adb 2)
                        (w\<lparr>device := phone_of False False True api\<rparr>))
       = [SetWifiState True (emulator w), SetDataState False (emulator w)]
   \<and> fst (setNetworkConnection phone_adb 3 (w\<lparr>device := phone_of False False True api\<rparr>)) = Inr 1
   \<and> filter is_write (issued (setNetworkConnection phone_adb 3)
                        (w\<lparr>device := phone_of False False True api\<rparr>))
       = [SetAirplaneMode True] @ (if api < 30 then [BroadcastAirplaneMode True] else [])
         @ [SetWifiState True (emulator w)]"
  by (cases "bootstrap w")
     (simp_all add: network_defs cmd_defs mask_defs phone_defs Let_def issued_def)

lemma bit_2_iff: "bit (2::int) n \<longleftrightarrow> n = 1"
  using bit_exp_iff[of 1 n, where ?'a = int] by auto

lemma bit_4_iff: "bit (4::int) n \<longleftrightarrow> n = 2"
  using bit_exp_iff[of 2 n, where ?'a = int] by auto

lemma bit_6_iff: "bit (6::int) n \<longleftrightarrow> n = 1 \<or> n = 2"
proof -
  have "(6::int) = 2 OR 4" by simp
  then show ?thesis by (simp only: bit_or_iff bit_2_iff bit_4_iff)
qed

lemma wifi_data_bits:
  "(b::int) AND 6 = (if b AND 2 \<noteq> 0 then 2 else 0) OR (if b AND 4 \<noteq> 0 then 4 else 0)"
proof -
  have w: "(b AND 2 \<noteq> 0) = bit b 1" and d: "(b AND 4 \<noteq> 0) = bit b 2"
    by (simp_all add: bit_iff_and_push_bit_not_eq_0)
  show ?thesis
    unfolding w d
    by (rule bit_eqI) (auto simp: bit_and_iff bit_or_iff bit_2_iff bit_4_iff bit_6_iff)
qed




subsection \<open>Geolocation\<close>

text \<open>
  C7 as stated fails: a coordinate that parses as zero is not returned as zero. The
  latitude \<open>0.0\<close> parses as zero and comes back as \<open>Number.MIN_VALUE\<close>, the same value
  that stands in for the altitude \<open>abc\<close>, which does not parse; only the longitude
  \<open>11.5\<close> is returned as parsed.
\<close>

theorem getGeoLocation_zero_counterexample:
  "parseFloat_ascii ''0.0'' = Num 0
   \<and> fst (getGeoLocation parseFloat_ascii phone_adb
          (fresh_driver ((phone_of False True True 29)
             \<lparr>gps_fix := Some \<lparr>raw_latitude = ''0.0'', raw_longitude = ''11.5'',
                                raw_altitude = ''abc''\<rparr>\<rparr>) None))
       = Inr \<lparr>latitude = Num MIN_VALUE, longitude = Num (115 / 10), altitude = Num MIN_VALUE\<rparr>
   \<and> Num MIN_VALUE \<noteq> Num 0"
  by (simp add: getGeoLocation_def cmd_defs phone_defs parse_defs js_or_def truthy_def
        GEO_EPSILON_def MIN_VALUE_def)

text \<open>
  C7, amended: for every location the bridge delivers and whatever \<open>parseFloat\<close> makes
  of its values, \<open>getGeoLocation\<close> returns \<open>Number.MIN_VALUE\<close> for each coordinate that
  parses as not-a-number or as zero, and the parsed number unchanged for every other
  coordinate.
\<close>

theorem getGeoLocation_epsilon_for_nan_or_zero:
  assumes "adb_getGeoLocation adb (device w) = (Inr loc, d')"
  shows "fst (getGeoLocation parseFloat adb w) =
           Inr \<lparr>latitude =
                   (if parseFloat (raw_latitude loc) = NaN \<or> parseFloat (raw_latitude loc) = Num 0
                    then Num MIN_VALUE else parseFloat (raw_latitude loc)),
                 longitude =
                   (if parseFloat (raw_longitude loc) = NaN \<or> parseFloat (raw_longitude loc) = Num 0
                    then Num MIN_VALUE else parseFloat (raw_longitude loc)),
                 altitude =
                   (if parseFloat (raw_altitude loc) = NaN \<or> parseFloat (raw_altitude loc) = Num 0
                    then Num MIN_VALUE else parseFloat (raw_altitude loc))\<rparr>"
  using assms
  by (simp add: getGeoLocation_def returnc_def bindc_def adb_call_def js_or_def truthy_def
        GEO_EPSILON_def)

text \<open>
  The amended C7 at a concrete input: \<open>-0\<close> parses as zero, \<open>1e1\<close> as ten and the empty
  string not at all.
\<close>

theorem getGeoLocation_epsilon_for_nan_or_zero_witness:
  "fst (getGeoLocation parseFloat_ascii phone_adb
          (fresh_driver ((phone_of False True True 29)
             \<lparr>gps_fix := Some \<lparr>raw_latitude = ''-0'', raw_longitude = ''1e1'',
                                raw_altitude = ''''\<rparr>\<rparr>) None))
     = Inr \<lparr>latitude = Num MIN_VALUE, longitude = Num 10, altitude = Num MIN_VALUE\<rparr>"
  using getGeoLocation_epsilon_for_nan_or_zero
          [of phone_adb
              "fresh_driver ((phone_of False True True 29)
                 \<lparr>gps_fix := Some \<lparr>raw_latitude = ''-0'', raw_longitude = ''1e1'',
                                    raw_altitude = ''''\<rparr>\<rparr>) None"
              "\<lparr>raw_latitude = ''-0'', raw_longitude = ''1e1'', raw_altitude = ''''\<rparr>"
              "(phone_of False True True 29)
                 \<lparr>gps_fix := Some \<lparr>raw_latitude = ''-0'', raw_longitude = ''1e1'',
                                    raw_altitude = ''''\<rparr>\<rparr>"
              parseFloat_ascii]
  by (simp add: phone_defs parse_defs)

text \<open>
  C8: for every location, if the bridge's \<open>setGeoLocation\<close> succeeds and the read-back
  \<open>getGeoLocation\<close> then throws, \<open>setGeoLocation\<close> does not throw: it logs two warnings
  and returns \<open>Number.MIN_VALUE\<close> for latitude, longitude and altitude.
\<close>

theorem setGeoLocation_readback_failure:
  assumes "adb_setGeoLocation adb location (emulator w) (device w) = (Inr (), d1)"
      and "getGeoLocation parseFloat adb
             (w\<lparr>device := d1, calls := calls w @ [SetGeoLocation location (emulator w)]\<rparr>)
           = (Inl e, w2)"
  shows "setGeoLocation parseFloat adb location w =
           (Inr \<lparr>latitude = Num MIN_VALUE, longitude = Num MIN_VALUE, altitude = Num MIN_VALUE\<rparr>,
            w2\<lparr>logged := logged w2 @
                  [(Warn, ''Could not get the current geolocation info: '' @ message e),
                   (Warn, ''Returning the default zero'ed values'')]\<rparr>)"
  using assms
  by (simp add: setGeoLocation_def GEO_EPSILON_def returnc_def bindc_def catchc_def
        adb_call_def log_line_def isEmulator_def)

text \<open>C8 at a concrete input: a phone that has no location to report.\<close>

theorem setGeoLocation_readback_failure_witness:
  "fst (setGeoLocation parseFloat_ascii phone_adb
          \<lparr>raw_latitude = ''48.1'', raw_longitude = ''11.5'', raw_altitude = ''520''\<rparr>
          (fresh_driver (phone_of False True True 29) None))
     = Inr \<lparr>latitude = Num MIN_VALUE, longitude = Num MIN_VALUE, altitude = Num MIN_VALUE\<rparr>"
  using setGeoLocation_readback_failure
          [of phone_adb "\<lparr>raw_latitude = ''48.1'', raw_longitude = ''11.5'', raw_altitude = ''520''\<rparr>"
              "fresh_driver (phone_of False True True 29) None" "phone_of False True True 29"
              parseFloat_ascii]
  by (simp add: phone_defs getGeoLocation_def cmd_defs)

end
